theory Spec2Isabelle
  imports Complex_Main "HOL-Library.Sublist"
begin

section \<open>Errors\<close>

text \<open>
  Go \<open>error\<close> values. \<open>ErrNoDataToLog\<close> is the package-level sentinel of \<open>main.go\<close>,
  \<open>io_EOF\<close> the sentinel of package \<open>io\<close>. \<open>errors_New msg\<close> is an error made by
  \<open>errors.New\<close> (or by \<open>fmt.Errorf\<close> without \<open>%w\<close>, or inside a library), and
  \<open>Errorf msg err\<close> is \<open>fmt.Errorf(msg + ": %w", err)\<close>: it wraps \<open>err\<close>.
\<close>

datatype error =
    ErrNoDataToLog
  | io_EOF
  | errors_New string
  | Errorf string error

text \<open>\<open>errors.Is\<close>: the target is the error itself or is reached by unwrapping.\<close>

fun errors_Is :: "error \<Rightarrow> error \<Rightarrow> bool" where
  "errors_Is (Errorf msg err) target =
     (Errorf msg err = target \<or> errors_Is err target)"
| "errors_Is err target = (err = target)"

section \<open>The connection wrapper\<close>

text \<open>
  \<open>Http0_9ConnWrapper\<close> embeds a \<open>net.Conn\<close> (here a state of type \<open>'c\<close>) and the flag
  \<open>haveReadAny\<close>. Byte slices are strings (lists of 8-bit characters).
\<close>

record 'c Http0_9ConnWrapper =
  Conn :: 'c
  haveReadAny :: bool

text \<open>
  The built-in \<open>copy(dst, src)\<close>: it copies \<open>min(len(dst), len(src))\<close> elements into the
  front of \<open>dst\<close> and leaves the rest of \<open>dst\<close> as it was. The result is the new
  content of \<open>dst\<close> and the number of elements copied.
\<close>

definition copy :: "'a list \<Rightarrow> 'a list \<Rightarrow> 'a list \<times> nat" where
  "copy dst src =
     (let n = min (length dst) (length src) in (take n src @ drop n dst, n))"

definition CRLF :: string where
  "CRLF = [CHR 0x0D, CHR 0x0A]"

definition response :: string where
  "response = ''HTTP/1.1 200 OK'' @ CRLF @ ''Connection: keep-alive'' @ CRLF @
     ''Content-Type: text/plain'' @ CRLF @ CRLF"

text \<open>
  \<open>Read\<close>. The read of the embedded connection is the parameter \<open>conn_Read\<close>: from the
  connection and the caller's buffer it gives the buffer as filled, the count, the error
  and the connection afterwards. \<open>Read\<close> returns the same four things, the last being the
  wrapper afterwards.
\<close>

definition Read ::
  "('c \<Rightarrow> string \<Rightarrow> string \<times> int \<times> error option \<times> 'c) \<Rightarrow>
   'c Http0_9ConnWrapper \<Rightarrow> string \<Rightarrow>
   string \<times> int \<times> error option \<times> 'c Http0_9ConnWrapper" where
  "Read conn_Read c b =
     (if haveReadAny c then
        (case conn_Read (Conn c) b of
           (b', n, err, k) \<Rightarrow> (b', n, err, c\<lparr>Conn := k\<rparr>))
      else
        (let c' = c\<lparr>haveReadAny := True\<rparr>;
             b' = fst (copy b response)
         in (b', int (length response), None, c')))"

text \<open>\<open>max\<close> of \<open>main.go\<close>, on Go's \<open>int\<close>.\<close>

definition max_go :: "int \<Rightarrow> int \<Rightarrow> int" where
  "max_go a b = (if a > b then a else b)"

section \<open>The fix store\<close>

text \<open>
  The sentence types come from the NMEA library, which is not part of the program. Of
  \<open>nmea.RMC\<close> and \<open>nmea.GGA\<close> the records below have the fields the program reads;
  \<open>'f\<close> is \<open>float64\<close>, \<open>'d\<close> is \<open>nmea.Date\<close>, \<open>'c\<close> is \<open>nmea.Time\<close>. The other three
  sentence types are never inspected and stay type parameters \<open>'a\<close> (GSA), \<open>'v\<close> (GSV)
  and \<open>'g\<close> (VTG).
\<close>

record ('f, 'd, 'c) RMC =
  Time :: 'c
  Latitude :: 'f
  Longitude :: 'f
  Speed :: 'f
  Course :: 'f
  Date :: 'd

record 'f GGA =
  Altitude :: 'f

text \<open>
  \<open>MifiNMEAData\<close>: a nil pointer is \<open>None\<close>. The mutex is not modelled: every access
  of the program happens between \<open>Lock\<close> and \<open>Unlock\<close>, so the operations below are the
  critical sections, run one after the other.
\<close>

record ('f, 'd, 'c, 'a, 'v, 'g) MifiNMEAData =
  RMC :: "('f, 'd, 'c) RMC option"
  GGA :: "'f GGA option"
  GSA :: "'a option"
  GSV :: "'v option"
  VTG :: "'g option"

definition Clear ::
  "('f, 'd, 'c, 'a, 'v, 'g) MifiNMEAData \<Rightarrow> ('f, 'd, 'c, 'a, 'v, 'g) MifiNMEAData" where
  "Clear d = d\<lparr>RMC := None, GGA := None, GSA := None, GSV := None, VTG := None\<rparr>"

text \<open>The store of \<open>main\<close> at startup: \<open>MifiNMEAData{}\<close>.\<close>

definition emptyData :: "('f, 'd, 'c, 'a, 'v, 'g) MifiNMEAData" where
  "emptyData = \<lparr>RMC = None, GGA = None, GSA = None, GSV = None, VTG = None\<rparr>"

text \<open>
  A decoded \<open>nmea.Sentence\<close>: one constructor for each type the switch of \<open>parseGPS\<close>
  names, and \<open>SentOther t\<close> for a sentence of any other type, \<open>t\<close> being what its
  \<open>DataType()\<close> returns.
\<close>

datatype ('f, 'd, 'c, 'a, 'v, 'g) Sentence =
    SentRMC "('f, 'd, 'c) RMC"
  | SentGGA "'f GGA"
  | SentGSA 'a
  | SentGSV 'v
  | SentVTG 'g
  | SentOther string

text \<open>
  \<open>parseGPS\<close>, with the library's \<open>nmea.Parse\<close> as the parameter \<open>nmea_Parse\<close>. It
  returns the error (\<open>None\<close> is nil) and the store afterwards.
\<close>

definition parseGPS ::
  "(string \<Rightarrow> error + ('f, 'd, 'c, 'a, 'v, 'g) Sentence) \<Rightarrow> string \<Rightarrow>
   ('f, 'd, 'c, 'a, 'v, 'g) MifiNMEAData \<Rightarrow>
   error option \<times> ('f, 'd, 'c, 'a, 'v, 'g) MifiNMEAData" where
  "parseGPS nmea_Parse line data =
     (case nmea_Parse line of
        Inl err \<Rightarrow> (Some (Errorf ''failed to parse nmea line'' err), data)
      | Inr s \<Rightarrow>
          (case s of
             SentRMC m \<Rightarrow> (None, data\<lparr>RMC := Some m\<rparr>)
           | SentGGA m \<Rightarrow> (None, data\<lparr>GGA := Some m\<rparr>)
           | SentGSA m \<Rightarrow> (None, data\<lparr>GSA := Some m\<rparr>)
           | SentGSV m \<Rightarrow> (None, data\<lparr>GSV := Some m\<rparr>)
           | SentVTG m \<Rightarrow> (None, data\<lparr>VTG := Some m\<rparr>)
           | SentOther t \<Rightarrow>
               (Some (errors_New (''unexpected nmea data type: '' @ t)), data)))"

text \<open>
  A sequence of updates of the store: \<open>parseGPS\<close> called on each line of \<open>ls\<close> in turn,
  whatever it returns.
\<close>

definition parseGPS_all ::
  "(string \<Rightarrow> error + ('f, 'd, 'c, 'a, 'v, 'g) Sentence) \<Rightarrow> string list \<Rightarrow>
   ('f, 'd, 'c, 'a, 'v, 'g) MifiNMEAData \<Rightarrow> ('f, 'd, 'c, 'a, 'v, 'g) MifiNMEAData" where
  "parseGPS_all nmea_Parse ls data = fold (\<lambda>l d. snd (parseGPS nmea_Parse l d)) ls data"

text \<open>
  For stating what such a sequence leaves: the sentences that \<open>nmea.Parse\<close> decodes from
  the lines, in order, and the last element of a list, or \<open>old\<close> when there is none.
\<close>

definition decoded ::
  "(string \<Rightarrow> error + ('f, 'd, 'c, 'a, 'v, 'g) Sentence) \<Rightarrow> string list \<Rightarrow>
   ('f, 'd, 'c, 'a, 'v, 'g) Sentence list" where
  "decoded nmea_Parse ls =
     concat (map (\<lambda>l. case nmea_Parse l of Inl e \<Rightarrow> [] | Inr s \<Rightarrow> [s]) ls)"

definition lastOr :: "'a option \<Rightarrow> 'a list \<Rightarrow> 'a option" where
  "lastOr old xs = (if xs = [] then old else Some (last xs))"

section \<open>The stream reader\<close>

text \<open>
  \<open>bytes.Trim(s, cutset)\<close> for a cutset of single-byte characters: the leading and the
  trailing bytes that are in the cutset are removed.
\<close>

definition bytes_Trim :: "string \<Rightarrow> string \<Rightarrow> string" where
  "bytes_Trim s cutset =
     rev (dropWhile (\<lambda>c. c \<in> set cutset) (rev (dropWhile (\<lambda>c. c \<in> set cutset) s)))"

text \<open>
  The \<open>for\<close> loop of \<open>getGPS\<close>. What the response body delivers is a list of lines (one
  for each \<open>ReadLine\<close> that returns without error) and then the error \<open>fault\<close> that the
  next \<open>ReadLine\<close> returns (\<open>io_EOF\<close> when the device closes the connection). The loop
  has no exit but \<open>return\<close> with an error, so it returns that error, the store
  afterwards, and the lines it has not read.
\<close>

fun getGPS_loop ::
  "(string \<Rightarrow> error + ('f, 'd, 'c, 'a, 'v, 'g) Sentence) \<Rightarrow> error \<Rightarrow> string list \<Rightarrow>
   ('f, 'd, 'c, 'a, 'v, 'g) MifiNMEAData \<Rightarrow>
   error \<times> ('f, 'd, 'c, 'a, 'v, 'g) MifiNMEAData \<times> string list" where
  "getGPS_loop nmea_Parse fault [] data =
     (if errors_Is fault io_EOF
      then (errors_New ''reached end of connection to mifi'', data, [])
      else (fault, data, []))"
| "getGPS_loop nmea_Parse fault (l # rest) data =
     (let line = bytes_Trim l [CHR 0x00] in
      if line = [] then getGPS_loop nmea_Parse fault rest data
      else
        (case parseGPS nmea_Parse line data of
           (Some err, data') \<Rightarrow> (Errorf ''failed to parse gps line'' err, data', rest)
         | (None, data') \<Rightarrow> getGPS_loop nmea_Parse fault rest data'))"

text \<open>
  \<open>getGPS\<close>. The outcome of building and sending the request is the parameter
  \<open>dial\<close>: \<open>Inl err\<close> when \<open>http.NewRequestWithContext\<close> or \<open>client.Do\<close> fails, and
  \<open>Inr (ls, fault)\<close> with what the body delivers otherwise.
\<close>

definition getGPS ::
  "(string \<Rightarrow> error + ('f, 'd, 'c, 'a, 'v, 'g) Sentence) \<Rightarrow>
   error + string list \<times> error \<Rightarrow>
   ('f, 'd, 'c, 'a, 'v, 'g) MifiNMEAData \<Rightarrow>
   error option \<times> ('f, 'd, 'c, 'a, 'v, 'g) MifiNMEAData \<times> string list" where
  "getGPS nmea_Parse dial data =
     (case dial of
        Inl err \<Rightarrow> (Some err, data, [])
      | Inr (ls, fault) \<Rightarrow>
          (case getGPS_loop nmea_Parse fault ls data of
             (err, data', unread) \<Rightarrow> (Some err, data', unread)))"

text \<open>
  One round of the goroutine that calls \<open>getGPS\<close>: on an error it logs it and clears the
  store; then it sleeps for a minute before the next round. The result is the error
  logged (if any), the store when the sleep begins, and the lines left unread on the
  connection that \<open>getGPS\<close> gave up.
\<close>

record ('f, 'd, 'c, 'a, 'v, 'g) round =
  logged :: "error option"
  store :: "('f, 'd, 'c, 'a, 'v, 'g) MifiNMEAData"
  unread :: "string list"

definition gpsRound ::
  "(string \<Rightarrow> error + ('f, 'd, 'c, 'a, 'v, 'g) Sentence) \<Rightarrow>
   error + string list \<times> error \<Rightarrow>
   ('f, 'd, 'c, 'a, 'v, 'g) MifiNMEAData \<Rightarrow> ('f, 'd, 'c, 'a, 'v, 'g) round" where
  "gpsRound nmea_Parse dial data =
     (case getGPS nmea_Parse dial data of
        (Some err, data', ls) \<Rightarrow> \<lparr>logged = Some err, store = Clear data', unread = ls\<rparr>
      | (None, data', ls) \<Rightarrow> \<lparr>logged = None, store = data', unread = ls\<rparr>)"

section \<open>The sampler and the outbound queue\<close>

text \<open>
  An element of \<open>args\<close> (\<open>[]interface{}\<close>) is a \<open>time.Time\<close> (type \<open>'t\<close>), a string or
  a \<open>float64\<close>.
\<close>

datatype ('f, 't) arg = ArgTime 't | ArgString string | ArgFloat 'f

record ('f, 't) queuedOp =
  query :: string
  args :: "('f, 't) arg list"

definition insertSQL :: string where
  "insertSQL = ''INSERT INTO gps_logs(logged_at, gps_timestamp, gps_geometry, gps_speed, gps_course) VALUES($1, $2, ST_GeographyFromText($3), $4, $5)''"

text \<open>
  \<open>queueLocation\<close>. The library functions are parameters: \<open>date_String\<close> and
  \<open>time_String\<close> are the \<open>String\<close> methods of \<open>nmea.Date\<close> and \<open>nmea.Time\<close>,
  \<open>time_Parse\<close> is \<open>time.Parse\<close>, \<open>fmt_f\<close> is what the verb \<open>%f\<close> prints for a
  \<open>float64\<close>, and \<open>now\<close> is what \<open>time.Now()\<close> returns in this call. The result is the
  error and the queue afterwards.

  The slice expression \<open>queue[:n]\<close> is \<open>take n\<close>: its bound here is
  \<open>max(len(queue)-100, len(queue))\<close>, which is \<open>len(queue)\<close>, so it is in range.
\<close>

definition queueLocation ::
  "('d \<Rightarrow> string) \<Rightarrow> ('c \<Rightarrow> string) \<Rightarrow> (string \<Rightarrow> string \<Rightarrow> error + 't) \<Rightarrow>
   ('f \<Rightarrow> string) \<Rightarrow> 't \<Rightarrow>
   ('f, 'd, 'c, 'a, 'v, 'g) MifiNMEAData \<Rightarrow> ('f, 't) queuedOp list \<Rightarrow>
   error option \<times> ('f, 't) queuedOp list" where
  "queueLocation date_String time_String time_Parse fmt_f now data queue =
     (case RMC data of
        None \<Rightarrow> (Some ErrNoDataToLog, queue)
      | Some rmc \<Rightarrow>
     (case GGA data of
        None \<Rightarrow> (Some ErrNoDataToLog, queue)
      | Some gga \<Rightarrow>
     (case time_Parse ''02/01/06T15:04:05.9999''
             (date_String (Date rmc) @ ''T'' @ time_String (Time rmc)) of
        Inl err \<Rightarrow> (Some (Errorf ''failed to parse RMC date time'' err), queue)
      | Inr t \<Rightarrow>
          (let queue1 = queue @
                 [\<lparr>query = insertSQL,
                   args = [ArgTime now,
                           ArgTime t,
                           ArgString (''SRID=4326;POINTZ('' @ fmt_f (Longitude rmc) @ '' '' @
                              fmt_f (Latitude rmc) @ '' '' @ fmt_f (Altitude gga) @ '')''),
                           ArgFloat (Speed rmc),
                           ArgFloat (Course rmc)]\<rparr>];
               queue2 = take (nat (max_go (int (length queue1) - 100) (int (length queue1))))
                          queue1
           in (None, queue2)))))"

section \<open>The flusher\<close>

text \<open>
  The database is outside the program; what it does in one call of \<open>pushToDB\<close> is given
  by three answers: \<open>Begin\<close> is the error of \<open>db.Begin()\<close>, \<open>Exec sofar op\<close> the error of
  \<open>tx.Exec\<close> for \<open>op\<close> when the statements \<open>sofar\<close> have been executed in the transaction
  before it, and \<open>Commit sofar\<close> the error of \<open>tx.Commit()\<close>.
\<close>

record ('f, 't) sql_DB =
  Begin :: "error option"
  Exec :: "('f, 't) queuedOp list \<Rightarrow> ('f, 't) queuedOp \<Rightarrow> error option"
  Commit :: "('f, 't) queuedOp list \<Rightarrow> error option"

text \<open>
  The \<open>for len(queue) != 0\<close> loop: \<open>sofar\<close> are the statements issued so far. It
  returns the error, the queue afterwards and the statements issued, the failing one
  included.
\<close>

fun pushToDB_loop ::
  "('f, 't) sql_DB \<Rightarrow> ('f, 't) queuedOp list \<Rightarrow> ('f, 't) queuedOp list \<Rightarrow>
   error option \<times> ('f, 't) queuedOp list \<times> ('f, 't) queuedOp list" where
  "pushToDB_loop db sofar [] = (None, [], sofar)"
| "pushToDB_loop db sofar (op # rest) =
     (case Exec db sofar op of
        Some err \<Rightarrow> (Some (Errorf ''failed to insert to DB'' err), op # rest, sofar @ [op])
      | None \<Rightarrow> pushToDB_loop db (sofar @ [op]) rest)"

text \<open>
  What one call of \<open>pushToDB\<close> leaves: the error returned, the queue, the statements it
  issued with \<open>tx.Exec\<close> in order, and the rows made durable (those of a transaction that
  committed; a transaction that is left without \<open>Commit\<close> stores nothing).
\<close>

record ('f, 't) flush =
  err :: "error option"
  queue :: "('f, 't) queuedOp list"
  issued :: "('f, 't) queuedOp list"
  committed :: "('f, 't) queuedOp list"

definition pushToDB ::
  "('f, 't) sql_DB \<Rightarrow> ('f, 't) queuedOp list \<Rightarrow> ('f, 't) flush" where
  "pushToDB db q =
     (case Begin db of
        Some e \<Rightarrow>
          \<lparr>err = Some (Errorf ''failed to start db txn'' e), queue = q,
           issued = [], committed = []\<rparr>
      | None \<Rightarrow>
          (case pushToDB_loop db [] q of
             (Some e, q', sofar) \<Rightarrow>
               \<lparr>err = Some e, queue = q', issued = sofar, committed = []\<rparr>
           | (None, q', sofar) \<Rightarrow>
               (case Commit db sofar of
                  Some e \<Rightarrow>
                    \<lparr>err = Some (Errorf ''failed to commit db txn'' e), queue = q',
                     issued = sofar, committed = []\<rparr>
                | None \<Rightarrow>
                    \<lparr>err = None, queue = q', issued = sofar, committed = sofar\<rparr>)))"

section \<open>Startup\<close>

text \<open>\<open>os.Getenv\<close>: the value of the variable, empty when it is not set.\<close>

definition os_Getenv :: "(string \<rightharpoonup> string) \<Rightarrow> string \<Rightarrow> string" where
  "os_Getenv env key = (case env key of None \<Rightarrow> [] | Some v \<Rightarrow> v)"

text \<open>
  The first lines of \<open>main\<close>, up to the two checks: \<open>Inl msg\<close> is \<open>panic(msg)\<close>, and
  \<open>Inr (connStr, mapsAPIKey)\<close> are the settings with which \<open>main\<close> goes on.
\<close>

definition main_startup :: "(string \<rightharpoonup> string) \<Rightarrow> string + string \<times> string" where
  "main_startup env =
     (let connStr = os_Getenv env ''MIFI_GPS_DBCONNSTR'' in
      if connStr = [] then
        Inl ''missing db connection string in env var MIFI_GPS_DBCONNSTR''
      else
        (let mapsAPIKey = os_Getenv env ''MIFI_GPS_MAPSAPIKEY'' in
         if connStr = [] then
           Inl ''missing maps api key in env var MIFI_GPS_MAPSAPIKEY''
         else Inr (connStr, mapsAPIKey)))"

section \<open>Sample inputs\<close>

text \<open>
  Concrete inputs for the examples below. The library types are instantiated: a
  \<open>float64\<close> is the real number it holds, an \<open>nmea.Date\<close> and an \<open>nmea.Time\<close> are given by
  the text their \<open>String\<close> methods print, a \<open>time.Time\<close> is a civil time (year, month,
  day, hour, minute, second), and the three sentence types that are never inspected
  are \<open>unit\<close>. The library functions are given on the inputs the examples use.
\<close>

type_synonym civil = "int \<times> int \<times> int \<times> int \<times> int \<times> int"

definition sampleRMC :: "(real, string, string) RMC" where
  "sampleRMC = \<lparr>Time = ''10:30:00.00'', Latitude = 47.6, Longitude = - 122.33,
     Speed = 0, Course = 0, Date = ''15/06/24''\<rparr>"

definition sampleGGA :: "real GGA" where
  "sampleGGA = \<lparr>Altitude = 12.5\<rparr>"

definition rmcLine :: string where
  "rmcLine = ''$GPRMC,103000.00,A,4736.0000,N,12219.8000,W,0.0,0.0,150624,,,A*4D''"

definition ggaLine :: string where
  "ggaLine = ''$GPGGA,103000.00,4736.0000,N,12219.8000,W,1,08,0.9,12.5,M,-17.0,M,,*67''"

definition gsaLine :: string where
  "gsaLine = ''$GPGSA,A,3,04,05,09,12,24,25,29,31,,,,,1.8,0.9,1.5*35''"

definition sample_nmea_Parse ::
  "string \<Rightarrow> error + (real, string, string, unit, unit, unit) Sentence" where
  "sample_nmea_Parse line =
     (if line = rmcLine then Inr (SentRMC sampleRMC)
      else if line = ggaLine then Inr (SentGGA sampleGGA)
      else if line = gsaLine then Inr (SentGSA ())
      else Inl (errors_New ''nmea: sentence does not start with a $ or !''))"

definition sample_String :: "string \<Rightarrow> string" where
  "sample_String s = s"

definition sample_time_Parse :: "string \<Rightarrow> string \<Rightarrow> error + civil" where
  "sample_time_Parse layout v =
     (if layout = ''02/01/06T15:04:05.9999'' \<and> v = ''15/06/24T10:30:00.00''
      then Inr (2024, 6, 15, 10, 30, 0)
      else Inl (errors_New ''parsing time: cannot parse''))"

definition sample_fmt_f :: "real \<Rightarrow> string" where
  "sample_fmt_f x =
     (if x = 12.5 then ''12.500000''
      else if x = 47.6 then ''47.600000''
      else if x = - 122.33 then ''-122.330000''
      else ''0.000000'')"

definition sampleData :: "(real, string, string, unit, unit, unit) MifiNMEAData" where
  "sampleData = \<lparr>RMC = Some sampleRMC, GGA = Some sampleGGA, GSA = None, GSV = None,
     VTG = None\<rparr>"

text \<open>The record that a sampling cycle at \<open>h\<close>:45 on 15 June 2024 queues from \<open>sampleData\<close>.\<close>

definition sampleOp :: "int \<Rightarrow> (real, civil) queuedOp" where
  "sampleOp h = \<lparr>query = insertSQL,
     args = [ArgTime (2024, 6, 15, h, 45, 0),
             ArgTime (2024, 6, 15, 10, 30, 0),
             ArgString ''SRID=4326;POINTZ(-122.330000 47.600000 12.500000)'',
             ArgFloat 0,
             ArgFloat 0]\<rparr>"

text \<open>A database that works, and one whose statement number \<open>n + 1\<close> of a transaction fails.\<close>

definition healthyDB :: "(real, civil) sql_DB" where
  "healthyDB = \<lparr>Begin = None, Exec = (\<lambda>sofar op. None), Commit = (\<lambda>sofar. None)\<rparr>"

definition failingDB :: "nat \<Rightarrow> (real, civil) sql_DB" where
  "failingDB n = \<lparr>Begin = None,
     Exec = (\<lambda>sofar op. if length sofar = n
                         then Some (errors_New ''pq: connection reset by peer'')
                         else None),
     Commit = (\<lambda>sofar. None)\<rparr>"

text \<open>A database on which no transaction can be opened.\<close>

definition downDB :: "(real, civil) sql_DB" where
  "downDB = \<lparr>Begin = Some (errors_New ''dial tcp: connection refused''),
     Exec = (\<lambda>sofar op. None), Commit = (\<lambda>sofar. None)\<rparr>"

text \<open>An underlying connection that delivers the four bytes \<open>$GPR\<close> on each read.\<close>

definition sample_conn_Read :: "unit \<Rightarrow> string \<Rightarrow> string \<times> int \<times> error option \<times> unit" where
  "sample_conn_Read k b = (fst (copy b ''$GPR''), int (snd (copy b ''$GPR'')), None, k)"

section \<open>Theorems\<close>

subsection \<open>The connection wrapper\<close>

lemma length_response: "length response = 69"
  by (simp add: response_def CRLF_def)

text \<open>
  C10, as stated: the first \<open>Read\<close> returns the count 71 whatever the buffer. On a fresh
  wrapper and a buffer of 100 bytes the count returned is 69, the length of the
  fabricated preamble, and not 71.
\<close>

theorem Read_first_count_counterexample:
  "fst (snd (Read sample_conn_Read \<lparr>Conn = (), haveReadAny = False\<rparr>
               (replicate 100 (CHR 0x00)))) = 69
   \<and> fst (snd (Read sample_conn_Read \<lparr>Conn = (), haveReadAny = False\<rparr>
               (replicate 100 (CHR 0x00)))) \<noteq> 71"
  by (simp add: Read_def Let_def length_response)

text \<open>
  C10, amended: the preamble has 69 bytes. The first \<open>Read\<close> of a wrapper copies the
  preamble into the caller's buffer \<open>b\<close> (as much of it as fits: \<open>min (length b) 69\<close>
  bytes are written), returns the count 69 whatever the length of \<open>b\<close> and no error, and
  sets \<open>haveReadAny\<close>; so for a buffer shorter than 69 bytes the count is larger than
  the number of bytes written. Once \<open>haveReadAny\<close> is set, \<open>Read\<close> returns what the
  read of the underlying connection returns, unmodified, and the flag stays set.
\<close>

theorem Read_preamble_then_passthrough:
  "Read conn_Read \<lparr>Conn = k, haveReadAny = False\<rparr> b =
     (take (length b) response @ drop 69 b, 69, None, \<lparr>Conn = k, haveReadAny = True\<rparr>)
   \<and> snd (copy b response) = min (length b) 69
   \<and> Read conn_Read \<lparr>Conn = k, haveReadAny = True\<rparr> b =
       (case conn_Read k b of
          (b', n, e, k') \<Rightarrow> (b', n, e, \<lparr>Conn = k', haveReadAny = True\<rparr>))"
  using length_response
  by (cases "length b \<le> 69") (simp_all add: Read_def copy_def Let_def min_def)

subsection \<open>The fix store\<close>

text \<open>
  C8: whatever the store holds, after \<open>Clear\<close> each of the five slots \<open>RMC\<close>, \<open>GGA\<close>,
  \<open>GSA\<close>, \<open>GSV\<close> and \<open>VTG\<close> is empty; the store is the one \<open>main\<close> starts with.
\<close>

theorem Clear_all_empty:
  "RMC (Clear d) = None \<and> GGA (Clear d) = None \<and> GSA (Clear d) = None \<and>
   GSV (Clear d) = None \<and> VTG (Clear d) = None \<and> Clear d = emptyData"
  by (simp add: Clear_def emptyData_def)

subsection \<open>Startup\<close>

text \<open>
  \<open>main\<close> panics exactly when \<open>MIFI_GPS_DBCONNSTR\<close> is unset or empty: the second check
  tests \<open>connStr\<close> again, so the value of \<open>MIFI_GPS_MAPSAPIKEY\<close> is never looked at.
\<close>

lemma main_startup_panics_iff:
  "(\<exists>msg. main_startup env = Inl msg) \<longleftrightarrow> os_Getenv env ''MIFI_GPS_DBCONNSTR'' = []"
  by (simp add: main_startup_def Let_def)

text \<open>
  C4 says that the process refuses to start when either setting is absent. With the
  connection string set and \<open>MIFI_GPS_MAPSAPIKEY\<close> absent from the environment, \<open>main\<close>
  does not panic: it goes on with an empty maps API key.
\<close>

theorem main_startup_without_maps_key:
  "main_startup [''MIFI_GPS_DBCONNSTR'' \<mapsto> ''postgres://gps@db/gps''] =
     Inr (''postgres://gps@db/gps'', [])"
  by (simp add: main_startup_def os_Getenv_def)

subsection \<open>The sampler and the outbound queue\<close>

text \<open>
  The bound of the slice expression in \<open>queueLocation\<close> is the length of the queue, so
  the slice keeps every element: a successful sampling cycle appends one record and
  removes none.
\<close>

lemma max_go_len: "max_go (n - 100) n = n"
  by (simp add: max_go_def)

lemma queueLocation_success:
  "RMC data = Some rmc \<Longrightarrow> GGA data = Some gga \<Longrightarrow>
   time_Parse ''02/01/06T15:04:05.9999'' (date_String (Date rmc) @ ''T'' @ time_String (Time rmc)) = Inr t \<Longrightarrow>
   queueLocation date_String time_String time_Parse fmt_f now data q =
     (None, q @ [\<lparr>query = insertSQL,
                   args = [ArgTime now, ArgTime t,
                           ArgString (''SRID=4326;POINTZ('' @ fmt_f (Longitude rmc) @ '' '' @
                              fmt_f (Latitude rmc) @ '' '' @ fmt_f (Altitude gga) @ '')''),
                           ArgFloat (Speed rmc), ArgFloat (Course rmc)]\<rparr>])"
  by (simp add: queueLocation_def Let_def max_go_len)

lemma sample_queueLocation:
  "queueLocation sample_String sample_String sample_time_Parse sample_fmt_f
     (2024, 6, 15, h, 45, 0) sampleData q = (None, q @ [sampleOp h])"
  by (simp add: queueLocation_success [where rmc = sampleRMC and gga = sampleGGA
        and t = "(2024, 6, 15, 10, 30, 0)"]
      sampleData_def sampleRMC_def sampleGGA_def sample_String_def sample_time_Parse_def
      sample_fmt_f_def sampleOp_def)

lemma queueLocation_keeps_queue:
  "prefix q (snd (queueLocation date_String time_String time_Parse fmt_f now data q))"
  by (simp add: queueLocation_def Let_def max_go_len split: option.splits sum.splits)

text \<open>
  C6: when the \<open>RMC\<close> slot or the \<open>GGA\<close> slot of the store is empty, \<open>queueLocation\<close>
  returns \<open>ErrNoDataToLog\<close> and the queue is as it was.
\<close>

theorem queueLocation_no_data:
  "RMC data = None \<or> GGA data = None \<Longrightarrow>
   queueLocation date_String time_String time_Parse fmt_f now data q = (Some ErrNoDataToLog, q)"
  by (auto simp: queueLocation_def split: option.splits)

theorem queueLocation_no_data_witness:
  "RMC (emptyData\<lparr>GSA := Some ()\<rparr> :: (real, string, string, unit, unit, unit) MifiNMEAData) = None
   \<and> queueLocation sample_String sample_String sample_time_Parse sample_fmt_f
        (2024, 6, 15, 10, 45, 0) (emptyData\<lparr>GSA := Some ()\<rparr>) [sampleOp 9] =
      (Some ErrNoDataToLog, [sampleOp 9])
   \<and> GGA (sampleData\<lparr>GGA := None\<rparr>) = None
   \<and> queueLocation sample_String sample_String sample_time_Parse sample_fmt_f
        (2024, 6, 15, 10, 45, 0) (sampleData\<lparr>GGA := None\<rparr>) [sampleOp 9] =
      (Some ErrNoDataToLog, [sampleOp 9])"
  using queueLocation_no_data [of "emptyData\<lparr>GSA := Some ()\<rparr>" sample_String sample_String
          sample_time_Parse sample_fmt_f "(2024, 6, 15, 10, 45, 0)" "[sampleOp 9]"]
        queueLocation_no_data [of "sampleData\<lparr>GGA := None\<rparr>" sample_String sample_String
          sample_time_Parse sample_fmt_f "(2024, 6, 15, 10, 45, 0)" "[sampleOp 9]"]
  by (simp add: emptyData_def)

text \<open>
  C7: the store holds an \<open>RMC\<close> whose date prints as \<open>15/06/24\<close> and whose time prints
  as \<open>10:30:00.00\<close>, and a \<open>GGA\<close> with altitude 12.5. \<open>queueLocation\<close> hands
  \<open>time.Parse\<close> the layout \<open>02/01/06T15:04:05.9999\<close> (day/month/year) and the text
  \<open>15/06/24T10:30:00.00\<close>, which that function decodes as 2024-06-15T10:30:00. The
  cycle then appends exactly one record to the queue: its device timestamp is
  2024-06-15T10:30:00 and its point is made of the longitude and the latitude of the
  \<open>RMC\<close> and the altitude 12.5, in this order.
\<close>

theorem queueLocation_sample_record:
  fixes data :: "(real, 'd, 'c, 'a, 'v, 'g) MifiNMEAData"
    and time_Parse :: "string \<Rightarrow> string \<Rightarrow> error + civil"
  assumes "RMC data = Some rmc" and "GGA data = Some gga"
    and "date_String (Date rmc) = ''15/06/24''"
    and "time_String (Time rmc) = ''10:30:00.00''"
    and "Altitude gga = 12.5"
    and "time_Parse ''02/01/06T15:04:05.9999'' ''15/06/24T10:30:00.00'' = Inr (2024, 6, 15, 10, 30, 0)"
  shows "queueLocation date_String time_String time_Parse fmt_f now data q =
     (None, q @ [\<lparr>query = insertSQL,
                   args = [ArgTime now,
                           ArgTime (2024, 6, 15, 10, 30, 0),
                           ArgString (''SRID=4326;POINTZ('' @ fmt_f (Longitude rmc) @ '' '' @
                              fmt_f (Latitude rmc) @ '' '' @ fmt_f 12.5 @ '')''),
                           ArgFloat (Speed rmc), ArgFloat (Course rmc)]\<rparr>])"
proof -
  have parsed: "time_Parse ''02/01/06T15:04:05.9999''
      (date_String (Date rmc) @ ''T'' @ time_String (Time rmc)) = Inr (2024, 6, 15, 10, 30, 0)"
    using assms(3,4,6) by simp
  show ?thesis
    using queueLocation_success [where date_String = date_String
        and time_String = time_String and time_Parse = time_Parse and fmt_f = fmt_f
        and now = now and q = q, OF assms(1) assms(2) parsed]
    unfolding assms(5) .
qed

theorem queueLocation_sample_record_witness:
  "RMC sampleData = Some sampleRMC \<and> GGA sampleData = Some sampleGGA
   \<and> sample_String (Date sampleRMC) = ''15/06/24''
   \<and> sample_String (Time sampleRMC) = ''10:30:00.00''
   \<and> Altitude sampleGGA = 12.5
   \<and> sample_time_Parse ''02/01/06T15:04:05.9999'' ''15/06/24T10:30:00.00'' = Inr (2024, 6, 15, 10, 30, 0)
   \<and> queueLocation sample_String sample_String sample_time_Parse sample_fmt_f
        (2024, 6, 15, 10, 45, 0) sampleData [sampleOp 9] =
      (None, [sampleOp 9,
              \<lparr>query = insertSQL,
               args = [ArgTime (2024, 6, 15, 10, 45, 0),
                       ArgTime (2024, 6, 15, 10, 30, 0),
                       ArgString ''SRID=4326;POINTZ(-122.330000 47.600000 12.500000)'',
                       ArgFloat 0, ArgFloat 0]\<rparr>])"
  using queueLocation_sample_record [of sampleData sampleRMC sampleGGA sample_String sample_String
      sample_time_Parse sample_fmt_f "(2024, 6, 15, 10, 45, 0)" "[sampleOp 9]"]
  by (simp add: sampleData_def sampleRMC_def sampleGGA_def sample_String_def
        sample_time_Parse_def sample_fmt_f_def)

text \<open>
  C2 says that the queue never holds more than 100 records, the oldest being discarded
  first. A sampling cycle on a queue of 100 records leaves 101 records: the slice
  \<open>queue[:max(len(queue)-100, len(queue))]\<close> under the comment
  \<open>don't infinitely take up memory\<close> removes nothing.
\<close>

theorem queueLocation_exceeds_cap:
  "queueLocation sample_String sample_String sample_time_Parse sample_fmt_f
     (2024, 6, 15, 10, 45, 0) sampleData (replicate 100 (sampleOp 9)) =
     (None, replicate 100 (sampleOp 9) @ [sampleOp 10])
   \<and> length (replicate 100 (sampleOp 9) @ [sampleOp 10]) = 101"
  by (simp add: sample_queueLocation)

subsection \<open>Sequences of updates\<close>

lemma parseGPS_all_Cons:
  "parseGPS_all P (l # ls) d = parseGPS_all P ls (snd (parseGPS P l d))"
  by (simp add: parseGPS_all_def)

lemma decoded_Cons:
  "decoded P (l # ls) = (case P l of Inl e \<Rightarrow> [] | Inr s \<Rightarrow> [s]) @ decoded P ls"
  by (simp add: decoded_def)

lemma lastOr_Cons: "lastOr old (x # xs) = lastOr (Some x) xs"
  by (simp add: lastOr_def)

lemma parseGPS_all_slots:
  "RMC (parseGPS_all P ls d) = lastOr (RMC d) [m. SentRMC m \<leftarrow> decoded P ls]
   \<and> GGA (parseGPS_all P ls d) = lastOr (GGA d) [m. SentGGA m \<leftarrow> decoded P ls]
   \<and> GSA (parseGPS_all P ls d) = lastOr (GSA d) [m. SentGSA m \<leftarrow> decoded P ls]
   \<and> GSV (parseGPS_all P ls d) = lastOr (GSV d) [m. SentGSV m \<leftarrow> decoded P ls]
   \<and> VTG (parseGPS_all P ls d) = lastOr (VTG d) [m. SentVTG m \<leftarrow> decoded P ls]"
proof (induction ls arbitrary: d)
  case Nil
  show ?case by (simp add: parseGPS_all_def decoded_def lastOr_def)
next
  case (Cons l ls)
  show ?case
  proof (cases "P l")
    case (Inl e)
    then show ?thesis
      using Cons [of d] by (simp add: parseGPS_all_Cons decoded_Cons parseGPS_def)
  next
    case (Inr s)
    then show ?thesis
      using Cons [of "snd (parseGPS P l d)"]
      by (cases s) (simp_all add: parseGPS_all_Cons decoded_Cons parseGPS_def lastOr_Cons)
  qed
qed

text \<open>
  An example: two \<open>RMC\<close> sentences, a line that does not decode and a \<open>GSA\<close> sentence.
\<close>

lemma parseGPS_all_example:
  "parseGPS_all sample_nmea_Parse [rmcLine, ''garbage'', gsaLine, rmcLine] emptyData =
     \<lparr>RMC = Some sampleRMC, GGA = None, GSA = Some (), GSV = None, VTG = None\<rparr>"
  by (simp add: parseGPS_all_def parseGPS_def sample_nmea_Parse_def emptyData_def
        rmcLine_def ggaLine_def gsaLine_def)

text \<open>
  C5: after any finite sequence of updates, each of the five slots holds the value of
  the last update of its variant in the sequence, and what the store held before if the
  sequence has no update of that variant (so an update of another variant does not
  change the slot). From the empty store, the snapshot is made of the last update of
  each variant, a slot without update being empty.
\<close>

theorem parseGPS_last_write_wins:
  "RMC (parseGPS_all P ls d) = lastOr (RMC d) [m. SentRMC m \<leftarrow> decoded P ls]
   \<and> GGA (parseGPS_all P ls d) = lastOr (GGA d) [m. SentGGA m \<leftarrow> decoded P ls]
   \<and> GSA (parseGPS_all P ls d) = lastOr (GSA d) [m. SentGSA m \<leftarrow> decoded P ls]
   \<and> GSV (parseGPS_all P ls d) = lastOr (GSV d) [m. SentGSV m \<leftarrow> decoded P ls]
   \<and> VTG (parseGPS_all P ls d) = lastOr (VTG d) [m. SentVTG m \<leftarrow> decoded P ls]
   \<and> parseGPS_all P ls emptyData =
       \<lparr>RMC = lastOr None [m. SentRMC m \<leftarrow> decoded P ls],
        GGA = lastOr None [m. SentGGA m \<leftarrow> decoded P ls],
        GSA = lastOr None [m. SentGSA m \<leftarrow> decoded P ls],
        GSV = lastOr None [m. SentGSV m \<leftarrow> decoded P ls],
        VTG = lastOr None [m. SentVTG m \<leftarrow> decoded P ls]\<rparr>"
proof -
  have "RMC (emptyData :: ('a, 'b, 'c, 'd, 'e, 'f) MifiNMEAData) = None"
    and "GGA (emptyData :: ('a, 'b, 'c, 'd, 'e, 'f) MifiNMEAData) = None"
    and "GSA (emptyData :: ('a, 'b, 'c, 'd, 'e, 'f) MifiNMEAData) = None"
    and "GSV (emptyData :: ('a, 'b, 'c, 'd, 'e, 'f) MifiNMEAData) = None"
    and "VTG (emptyData :: ('a, 'b, 'c, 'd, 'e, 'f) MifiNMEAData) = None"
    by (simp_all add: emptyData_def)
  with parseGPS_all_slots [of P ls emptyData] parseGPS_all_slots [of P ls d]
  show ?thesis by (simp add: MifiNMEAData.equality)
qed

subsection \<open>The stream reader\<close>

text \<open>
  Whether \<open>parseGPS\<close> returns an error depends on the line alone, and a call that
  returns an error leaves the store as it was.
\<close>

lemma parseGPS_error_any_store:
  "fst (parseGPS P line d) = fst (parseGPS P line d')"
  by (simp add: parseGPS_def split: sum.splits Sentence.splits)

lemma parseGPS_error_keeps_store:
  "fst (parseGPS P line d) = Some e \<Longrightarrow> parseGPS P line d = (Some e, d)"
  by (auto simp: parseGPS_def split: sum.splits Sentence.splits)

lemma getGPS_loop_bad_line:
  assumes "\<forall>p\<in>set pre. bytes_Trim p [CHR 0x00] = [] \<or>
             fst (parseGPS P (bytes_Trim p [CHR 0x00]) d0) = None"
    and "bytes_Trim l [CHR 0x00] \<noteq> []"
    and "fst (parseGPS P (bytes_Trim l [CHR 0x00]) d0) = Some e"
  shows "\<exists>d'. getGPS_loop P fault (pre @ l # rest) d =
           (Errorf ''failed to parse gps line'' e, d', rest)"
  using assms(1)
proof (induction pre arbitrary: d)
  case Nil
  have "fst (parseGPS P (bytes_Trim l [CHR 0x00]) d) = Some e"
    using assms(3) parseGPS_error_any_store [of P _ d d0] by simp
  then have "parseGPS P (bytes_Trim l [CHR 0x00]) d = (Some e, d)"
    by (rule parseGPS_error_keeps_store)
  with assms(2) show ?case by (simp add: Let_def)
next
  case (Cons p pre)
  then have rest_ok: "\<forall>p\<in>set pre. bytes_Trim p [CHR 0x00] = [] \<or>
             fst (parseGPS P (bytes_Trim p [CHR 0x00]) d0) = None"
    by simp
  show ?case
  proof (cases "bytes_Trim p [CHR 0x00] = []")
    case True
    then show ?thesis using Cons.IH [OF rest_ok, of d] by (simp add: Let_def)
  next
    case False
    with Cons.prems have "fst (parseGPS P (bytes_Trim p [CHR 0x00]) d0) = None" by simp
    then have "fst (parseGPS P (bytes_Trim p [CHR 0x00]) d) = None"
      using parseGPS_error_any_store [of P _ d d0] by simp
    then obtain d1 where "parseGPS P (bytes_Trim p [CHR 0x00]) d = (None, d1)"
      by (cases "parseGPS P (bytes_Trim p [CHR 0x00]) d") simp
    with False show ?thesis using Cons.IH [OF rest_ok, of d1] by (simp add: Let_def)
  qed
qed

lemma Clear_emptyData: "Clear d = emptyData"
  by (simp add: Clear_def emptyData_def)

lemma trim_garbage: "bytes_Trim ''garbage'' [CHR 0x00] = ''garbage''"
  by (simp add: bytes_Trim_def)

lemma trim_nul: "bytes_Trim [CHR 0x00, CHR 0x00] [CHR 0x00] = []"
  by (simp add: bytes_Trim_def)

lemma trim_rmcLine: "bytes_Trim rmcLine [CHR 0x00] = rmcLine"
  by (simp add: bytes_Trim_def rmcLine_def)

lemma parse_garbage:
  "sample_nmea_Parse ''garbage'' =
     Inl (errors_New ''nmea: sentence does not start with a $ or !'')"
  by (simp add: sample_nmea_Parse_def rmcLine_def ggaLine_def gsaLine_def)

lemma parse_rmcLine: "sample_nmea_Parse rmcLine = Inr (SentRMC sampleRMC)"
  by (simp add: sample_nmea_Parse_def)

text \<open>
  C3, as stated: a line that fails to decode never makes the read loop exit, the store
  be cleared, or the reader go to its cooldown. The store holds an \<open>RMC\<close> and a \<open>GGA\<close>,
  and the connection delivers the line \<open>garbage\<close> and then a valid GSA sentence: the
  round logs the decode failure, the store is cleared, and the GSA sentence is left
  unread when the reader starts its one-minute sleep.
\<close>

theorem gpsRound_bad_line_counterexample:
  "gpsRound sample_nmea_Parse (Inr ([''garbage'', gsaLine], io_EOF)) sampleData =
     \<lparr>logged = Some (Errorf ''failed to parse gps line''
                 (Errorf ''failed to parse nmea line''
                    (errors_New ''nmea: sentence does not start with a $ or !''))),
      store = emptyData, unread = [gsaLine]\<rparr>
   \<and> sampleData \<noteq> emptyData"
  by (simp add: gpsRound_def getGPS_def Let_def trim_garbage parse_garbage parseGPS_def
        Clear_emptyData sampleData_def emptyData_def)

text \<open>
  C3, amended: while streaming, a line that is not empty once its null bytes are
  stripped and that fails to decode as a supported sentence (\<open>parseGPS\<close> returns an
  error \<open>e\<close> for it: malformed, or of an unrecognised type) ends the stream, as a read
  fault does. Every line before it being empty or decoded, \<open>getGPS\<close> returns the error
  \<open>failed to parse gps line\<close> wrapping \<open>e\<close> and leaves the later lines \<open>rest\<close> unread;
  the round logs that error and clears the store before its cooldown sleep.
\<close>

theorem gpsRound_bad_line:
  assumes "\<forall>p\<in>set pre. bytes_Trim p [CHR 0x00] = [] \<or>
             fst (parseGPS nmea_Parse (bytes_Trim p [CHR 0x00]) d) = None"
    and "bytes_Trim l [CHR 0x00] \<noteq> []"
    and "fst (parseGPS nmea_Parse (bytes_Trim l [CHR 0x00]) d) = Some e"
  shows "gpsRound nmea_Parse (Inr (pre @ l # rest, fault)) d =
           \<lparr>logged = Some (Errorf ''failed to parse gps line'' e),
            store = emptyData, unread = rest\<rparr>"
proof -
  obtain d' where "getGPS_loop nmea_Parse fault (pre @ l # rest) d =
      (Errorf ''failed to parse gps line'' e, d', rest)"
    using getGPS_loop_bad_line [OF assms, of fault rest d] by blast
  then show ?thesis
    by (simp add: gpsRound_def getGPS_def Clear_emptyData)
qed

theorem gpsRound_bad_line_witness:
  "fst (parseGPS sample_nmea_Parse (bytes_Trim rmcLine [CHR 0x00]) emptyData) = None
   \<and> bytes_Trim [CHR 0x00, CHR 0x00] [CHR 0x00] = []
   \<and> bytes_Trim ''garbage'' [CHR 0x00] = ''garbage''
   \<and> fst (parseGPS sample_nmea_Parse (bytes_Trim ''garbage'' [CHR 0x00]) emptyData) =
       Some (Errorf ''failed to parse nmea line''
               (errors_New ''nmea: sentence does not start with a $ or !''))
   \<and> gpsRound sample_nmea_Parse
        (Inr ([rmcLine, [CHR 0x00, CHR 0x00]] @ ''garbage'' # [ggaLine], io_EOF)) emptyData =
       \<lparr>logged = Some (Errorf ''failed to parse gps line''
                   (Errorf ''failed to parse nmea line''
                      (errors_New ''nmea: sentence does not start with a $ or !''))),
        store = emptyData, unread = [ggaLine]\<rparr>"
  using gpsRound_bad_line [of "[rmcLine, [CHR 0x00, CHR 0x00]]" sample_nmea_Parse emptyData
      "''garbage''"
      "Errorf ''failed to parse nmea line''
         (errors_New ''nmea: sentence does not start with a $ or !'')"
      "[ggaLine]" io_EOF]
  by (simp add: trim_garbage trim_nul trim_rmcLine parse_garbage parse_rmcLine parseGPS_def)

subsection \<open>The flusher\<close>

lemma pushToDB_loop_issued_prefix:
  "prefix (snd (snd (pushToDB_loop db sofar q))) (sofar @ q)"
proof (induction q arbitrary: sofar)
  case Nil
  show ?case by simp
next
  case (Cons op rest)
  show ?case
  proof (cases "Exec db sofar op")
    case None
    with Cons [of "sofar @ [op]"] show ?thesis by simp
  next
    case (Some e)
    then show ?thesis by simp
  qed
qed

lemma pushToDB_loop_all_ok:
  "(\<And>i. i < length q \<Longrightarrow> Exec db (sofar @ take i q) (q ! i) = None) \<Longrightarrow>
   pushToDB_loop db sofar q = (None, [], sofar @ q)"
proof (induction q arbitrary: sofar)
  case Nil
  show ?case by simp
next
  case (Cons op rest)
  have first: "Exec db sofar op = None"
    using Cons.prems [of 0] by simp
  have later: "Exec db ((sofar @ [op]) @ take i rest) (rest ! i) = None"
    if "i < length rest" for i
    using Cons.prems [of "Suc i"] that by simp
  show ?case
    using first Cons.IH [of "sofar @ [op]", OF later] by simp
qed

lemma pushToDB_loop_first_failure:
  "k < length q \<Longrightarrow>
   (\<And>i. i < k \<Longrightarrow> Exec db (sofar @ take i q) (q ! i) = None) \<Longrightarrow>
   Exec db (sofar @ take k q) (q ! k) = Some e \<Longrightarrow>
   pushToDB_loop db sofar q =
     (Some (Errorf ''failed to insert to DB'' e), drop k q, sofar @ take (Suc k) q)"
proof (induction q arbitrary: sofar k)
  case Nil
  then show ?case by simp
next
  case (Cons op rest)
  show ?case
  proof (cases k)
    case 0
    with Cons.prems(3) show ?thesis by simp
  next
    case (Suc j)
    have first: "Exec db sofar op = None"
      using Cons.prems(2) [of 0] Suc by simp
    have j: "j < length rest"
      using Cons.prems(1) Suc by simp
    have before: "Exec db ((sofar @ [op]) @ take i rest) (rest ! i) = None" if "i < j" for i
      using Cons.prems(2) [of "Suc i"] that Suc by simp
    have fails: "Exec db ((sofar @ [op]) @ take j rest) (rest ! j) = Some e"
      using Cons.prems(3) Suc by simp
    show ?thesis
      using first Suc Cons.IH [of j "sofar @ [op]", OF j before fails] by simp
  qed
qed

lemma issued_pushToDB:
  "issued (pushToDB db q) =
     (case Begin db of Some e \<Rightarrow> [] | None \<Rightarrow> snd (snd (pushToDB_loop db [] q)))"
  by (simp add: pushToDB_def split: option.splits prod.splits)

text \<open>
  A record whose insert succeeded is taken off the queue at once, before the commit: when
  a later insert of the same cycle fails, the record is neither in the queue nor stored.
\<close>

lemma pushToDB_drops_executed:
  "Begin db = None \<Longrightarrow> Exec db [] a = None \<Longrightarrow> Exec db [a] b = Some e \<Longrightarrow>
   pushToDB db (a # b # rest) =
     \<lparr>err = Some (Errorf ''failed to insert to DB'' e), queue = b # rest,
      issued = [a, b], committed = []\<rparr>"
  by (simp add: pushToDB_def)

text \<open>
  C1 says that a flush cycle in which an insert fails leaves in the queue every record
  that was queued at its start, in order. Five records are queued and the storage fails
  on the third insert: after the cycle the queue holds the last three records only. The
  first two were executed in a transaction that is never committed, so they are stored
  nowhere, and the next cycle, on a healthy storage, stores the last three only.
\<close>

theorem pushToDB_third_of_five_fails:
  "pushToDB (failingDB 2) [sampleOp 1, sampleOp 2, sampleOp 3, sampleOp 4, sampleOp 5] =
     \<lparr>err = Some (Errorf ''failed to insert to DB''
              (errors_New ''pq: connection reset by peer'')),
      queue = [sampleOp 3, sampleOp 4, sampleOp 5],
      issued = [sampleOp 1, sampleOp 2, sampleOp 3],
      committed = []\<rparr>
   \<and> pushToDB healthyDB [sampleOp 3, sampleOp 4, sampleOp 5] =
     \<lparr>err = None, queue = [],
      issued = [sampleOp 3, sampleOp 4, sampleOp 5],
      committed = [sampleOp 3, sampleOp 4, sampleOp 5]\<rparr>"
  by (simp add: pushToDB_def failingDB_def healthyDB_def)

text \<open>
  C9, as stated: every flush cycle on a non-empty queue issues one insert for each
  queued record. Two records are queued and the storage fails on the first insert:
  the cycle issues that one insert and none for the second record.
\<close>

theorem pushToDB_insert_per_record_counterexample:
  "[sampleOp 1, sampleOp 2] \<noteq> []
   \<and> issued (pushToDB (failingDB 0) [sampleOp 1, sampleOp 2]) = [sampleOp 1]
   \<and> issued (pushToDB (failingDB 0) [sampleOp 1, sampleOp 2]) \<noteq> [sampleOp 1, sampleOp 2]"
  by (simp add: pushToDB_def failingDB_def)

text \<open>
  C9, amended: in every flush cycle the inserts are issued in strict enqueue order,
  oldest record first, and the cycle stops at the first insert that fails. The inserts
  issued are always a prefix of the queue. When the transaction opens and no insert
  fails, there is exactly one insert for each queued record. When the transaction
  opens and the first insert to fail is that of the record at index \<open>k\<close>, the inserts
  issued are those of the first \<open>k + 1\<close> records, the failing one being the last. When
  the transaction cannot be opened, no insert is issued.
\<close>

theorem pushToDB_issues_in_order:
  "prefix (issued (pushToDB db q)) q
   \<and> (Begin db = None \<and> (\<forall>i<length q. Exec db (take i q) (q ! i) = None)
        \<longrightarrow> issued (pushToDB db q) = q)
   \<and> (Begin db = None \<and> k < length q \<and> (\<forall>i<k. Exec db (take i q) (q ! i) = None)
        \<and> Exec db (take k q) (q ! k) = Some e
        \<longrightarrow> issued (pushToDB db q) = take (Suc k) q)
   \<and> (Begin db = Some e' \<longrightarrow> issued (pushToDB db q) = [])"
proof (intro conjI impI)
  show "prefix (issued (pushToDB db q)) q"
    using pushToDB_loop_issued_prefix [of db "[]" q]
    by (simp add: issued_pushToDB split: option.splits)
next
  assume ok: "Begin db = None \<and> (\<forall>i<length q. Exec db (take i q) (q ! i) = None)"
  then have "pushToDB_loop db [] q = (None, [], [] @ q)"
    by (intro pushToDB_loop_all_ok) simp
  with ok show "issued (pushToDB db q) = q"
    by (simp add: issued_pushToDB)
next
  assume fail: "Begin db = None \<and> k < length q
      \<and> (\<forall>i<k. Exec db (take i q) (q ! i) = None)
      \<and> Exec db (take k q) (q ! k) = Some e"
  then have "pushToDB_loop db [] q =
      (Some (Errorf ''failed to insert to DB'' e), drop k q, [] @ take (Suc k) q)"
    by (intro pushToDB_loop_first_failure) simp_all
  with fail show "issued (pushToDB db q) = take (Suc k) q"
    by (simp add: issued_pushToDB)
next
  assume "Begin db = Some e'"
  then show "issued (pushToDB db q) = []"
    by (simp add: issued_pushToDB)
qed

theorem pushToDB_issues_in_order_witness:
  "Begin healthyDB = None
   \<and> Exec healthyDB [] (sampleOp 1) = None
   \<and> Exec healthyDB [sampleOp 1] (sampleOp 2) = None
   \<and> Exec healthyDB [sampleOp 1, sampleOp 2] (sampleOp 3) = None
   \<and> prefix (issued (pushToDB healthyDB [sampleOp 1, sampleOp 2, sampleOp 3]))
        [sampleOp 1, sampleOp 2, sampleOp 3]
   \<and> issued (pushToDB healthyDB [sampleOp 1, sampleOp 2, sampleOp 3]) =
        [sampleOp 1, sampleOp 2, sampleOp 3]
   \<and> Begin (failingDB 2) = None
   \<and> Exec (failingDB 2) [] (sampleOp 1) = None
   \<and> Exec (failingDB 2) [sampleOp 1] (sampleOp 2) = None
   \<and> Exec (failingDB 2) [sampleOp 1, sampleOp 2] (sampleOp 3) =
        Some (errors_New ''pq: connection reset by peer'')
   \<and> issued (pushToDB (failingDB 2)
        [sampleOp 1, sampleOp 2, sampleOp 3, sampleOp 4, sampleOp 5]) =
        [sampleOp 1, sampleOp 2, sampleOp 3]
   \<and> Begin downDB = Some (errors_New ''dial tcp: connection refused'')
   \<and> issued (pushToDB downDB [sampleOp 1, sampleOp 2]) = []"
proof -
  have all3: "\<forall>i<length [sampleOp 1, sampleOp 2, sampleOp 3].
      Exec healthyDB (take i [sampleOp 1, sampleOp 2, sampleOp 3])
        ([sampleOp 1, sampleOp 2, sampleOp 3] ! i) = None"
    by (simp add: healthyDB_def)
  have before2: "\<forall>i<2. Exec (failingDB 2)
        (take i [sampleOp 1, sampleOp 2, sampleOp 3, sampleOp 4, sampleOp 5])
        ([sampleOp 1, sampleOp 2, sampleOp 3, sampleOp 4, sampleOp 5] ! i) = None"
    by (simp add: failingDB_def)
  have healthy: "issued (pushToDB healthyDB [sampleOp 1, sampleOp 2, sampleOp 3]) =
        [sampleOp 1, sampleOp 2, sampleOp 3]"
    using pushToDB_issues_in_order [of healthyDB "[sampleOp 1, sampleOp 2, sampleOp 3]"] all3
    by (simp add: healthyDB_def)
  have third: "issued (pushToDB (failingDB 2)
        [sampleOp 1, sampleOp 2, sampleOp 3, sampleOp 4, sampleOp 5]) =
        take (Suc 2) [sampleOp 1, sampleOp 2, sampleOp 3, sampleOp 4, sampleOp 5]"
    using pushToDB_issues_in_order [of "failingDB 2"
        "[sampleOp 1, sampleOp 2, sampleOp 3, sampleOp 4, sampleOp 5]" 2
        "errors_New ''pq: connection reset by peer''"] before2
    by (simp add: failingDB_def)
  have down: "issued (pushToDB downDB [sampleOp 1, sampleOp 2]) = []"
    using pushToDB_issues_in_order [of downDB "[sampleOp 1, sampleOp 2]" _ _
        "errors_New ''dial tcp: connection refused''"]
    by (simp add: downDB_def)
  show ?thesis
    using healthy third down
    by (simp add: healthyDB_def failingDB_def downDB_def)
qed

end
